theory Spec2Isabelle
  imports Main
begin

section \<open>JavaScript values and the object store\<close>

text \<open>
  The converter builds its output by mutating JavaScript objects that are shared by
  reference (the scalar cache entries, the fragment table entries, the frames of the
  selection stack).  Every object and every array therefore lives in an explicit store;
  a value is a primitive or a reference into the store.  Property order is kept, as
  JavaScript keeps insertion order.

  Property access is own-property access: names inherited from \<open>Object.prototype\<close> or
  \<open>Array.prototype\<close> (\<open>constructor\<close>, \<open>length\<close>, ...) are outside the model, so
  GraphQL type, field and fragment names are taken not to collide with them.
\<close>

type_synonym addr = nat

datatype val = VUndef | VNull | VBool bool | VNum int | VStr string | VRef addr

datatype obj = HObj "(string \<times> val) list" | HArr "val list"

type_synonym heap = "obj list"

datatype exn =
    UnknownScalarError string
  | MissingSchemaError string
  | TypeError
  | Error string

datatype json =
    JNull | JBool bool | JNum int | JStr string
  | JArr "json list" | JObj "(string \<times> json) list"

text \<open>A call that may throw returns an exception (\<open>Inl\<close>) or its result; \<open>thenE\<close>
  runs the rest of the body on the result and passes an exception on.\<close>

definition thenE :: "exn + 'a \<Rightarrow> ('a \<Rightarrow> exn + 'b) \<Rightarrow> exn + 'b" where
  "thenE r f = (case r of Inl e \<Rightarrow> Inl e | Inr x \<Rightarrow> f x)"

lemma thenE_cong [fundef_cong]:
  "r = r' \<Longrightarrow> (\<And>x. r' = Inr x \<Longrightarrow> f x = f' x) \<Longrightarrow> thenE r f = thenE r' f'"
  by (cases r') (simp_all add: thenE_def)

definition alloc :: "obj \<Rightarrow> heap \<Rightarrow> val \<times> heap" where
  "alloc ob h = (VRef (length h), h @ [ob])"

definition deref :: "heap \<Rightarrow> addr \<Rightarrow> obj" where
  "deref h a = (if a < length h then h ! a else HObj [])"

fun truthy :: "val \<Rightarrow> bool" where
  "truthy VUndef = False"
| "truthy VNull = False"
| "truthy (VBool b) = b"
| "truthy (VNum n) = (n \<noteq> 0)"
| "truthy (VStr s) = (s \<noteq> [])"
| "truthy (VRef a) = True"

fun upd_prop :: "string \<Rightarrow> val \<Rightarrow> (string \<times> val) list \<Rightarrow> (string \<times> val) list" where
  "upd_prop k v [] = [(k, v)]"
| "upd_prop k v ((k', v') # ps) =
     (if k = k' then (k, v) # ps else (k', v') # upd_prop k v ps)"

text \<open>\<open>v.k\<close>: reading a property of \<open>undefined\<close> or \<open>null\<close> throws a TypeError; a
  missing property, and any property of a primitive or of an array, reads \<open>undefined\<close>.\<close>

fun getProp :: "heap \<Rightarrow> val \<Rightarrow> string \<Rightarrow> exn + val" where
  "getProp h VUndef k = Inl TypeError"
| "getProp h VNull k = Inl TypeError"
| "getProp h (VRef a) k =
     (case deref h a of
        HObj ps \<Rightarrow> (case map_of ps k of Some x \<Rightarrow> Inr x | None \<Rightarrow> Inr VUndef)
      | HArr xs \<Rightarrow> Inr VUndef)"
| "getProp h v k = Inr VUndef"

text \<open>\<open>v.k = x\<close>: throws on \<open>undefined\<close>, \<open>null\<close> and (the module is strict code) on a
  primitive.  A named property put on an array is not tracked: it does not show in the
  array's elements.\<close>

fun setProp :: "heap \<Rightarrow> val \<Rightarrow> string \<Rightarrow> val \<Rightarrow> exn + heap" where
  "setProp h (VRef a) k x =
     (case deref h a of
        HObj ps \<Rightarrow> Inr (h[a := HObj (upd_prop k x ps)])
      | HArr xs \<Rightarrow> Inr h)"
| "setProp h v k x = Inl TypeError"

text \<open>\<open>{...v}\<close>: the own properties of an object, in order; nothing for a primitive.\<close>

fun spread :: "heap \<Rightarrow> val \<Rightarrow> (string \<times> val) list" where
  "spread h (VRef a) = (case deref h a of HObj ps \<Rightarrow> ps | HArr xs \<Rightarrow> [])"
| "spread h v = []"

text \<open>\<open>v?.k\<close>\<close>

fun getPropOpt :: "heap \<Rightarrow> val \<Rightarrow> string \<Rightarrow> val" where
  "getPropOpt h VUndef k = VUndef"
| "getPropOpt h VNull k = VUndef"
| "getPropOpt h v k = (case getProp h v k of Inr x \<Rightarrow> x | Inl e \<Rightarrow> VUndef)"

text \<open>\<open>arr.push(x)\<close>; calling \<open>push\<close> on anything but an array throws.\<close>

fun arrPush :: "heap \<Rightarrow> val \<Rightarrow> val \<Rightarrow> exn + heap" where
  "arrPush h (VRef a) x =
     (case deref h a of
        HArr xs \<Rightarrow> Inr (h[a := HArr (xs @ [x])])
      | HObj ps \<Rightarrow> Inl TypeError)"
| "arrPush h v x = Inl TypeError"

text \<open>Function \<open>isOfTypeOrContains\<close> of the source.\<close>

definition isOfTypeOrContains :: "heap \<Rightarrow> val \<Rightarrow> string \<Rightarrow> bool" where
  "isOfTypeOrContains h typeDef typeName =
     (if \<not> truthy typeDef then False
      else case typeDef of
             VStr s \<Rightarrow> typeName = s
           | VRef a \<Rightarrow> (case deref h a of
                          HArr xs \<Rightarrow> VStr typeName \<in> set xs
                        | HObj ps \<Rightarrow> False)
           | _ \<Rightarrow> False)"

text \<open>An object tree handed in from outside (the node a scalar callback returns) is a
  \<open>json\<close> value; entering the program it is laid out in the store, every object and
  array at an address of its own.\<close>

fun alloc_json :: "json \<Rightarrow> heap \<Rightarrow> val \<times> heap"
  and alloc_elems :: "json list \<Rightarrow> heap \<Rightarrow> val list \<times> heap"
  and alloc_props :: "(string \<times> json) list \<Rightarrow> heap \<Rightarrow> (string \<times> val) list \<times> heap"
where
  "alloc_json JNull h = (VNull, h)"
| "alloc_json (JBool b) h = (VBool b, h)"
| "alloc_json (JNum n) h = (VNum n, h)"
| "alloc_json (JStr s) h = (VStr s, h)"
| "alloc_json (JArr xs) h = (case alloc_elems xs h of (vs, h') \<Rightarrow> alloc (HArr vs) h')"
| "alloc_json (JObj ps) h = (case alloc_props ps h of (qs, h') \<Rightarrow> alloc (HObj qs) h')"
| "alloc_elems [] h = ([], h)"
| "alloc_elems (x # xs) h =
     (case alloc_json x h of (v, h1) \<Rightarrow>
        case alloc_elems xs h1 of (vs, h2) \<Rightarrow> (v # vs, h2))"
| "alloc_props [] h = ([], h)"
| "alloc_props (p # ps) h =
     (case alloc_json (snd p) h of (v, h1) \<Rightarrow>
        case alloc_props ps h1 of (qs, h2) \<Rightarrow> ((fst p, v) # qs, h2))"

text \<open>Reading a value back as the JSON text it serialises to: a property whose value is
  \<open>undefined\<close> is left out, \<open>undefined\<close> inside an array reads \<open>null\<close>.  The first
  argument bounds the nesting depth; \<open>None\<close> means the bound was too small.\<close>

fun reify :: "nat \<Rightarrow> heap \<Rightarrow> val \<Rightarrow> json option" where
  "reify 0 h v = None"
| "reify (Suc n) h VUndef = Some JNull"
| "reify (Suc n) h VNull = Some JNull"
| "reify (Suc n) h (VBool b) = Some (JBool b)"
| "reify (Suc n) h (VNum i) = Some (JNum i)"
| "reify (Suc n) h (VStr s) = Some (JStr s)"
| "reify (Suc n) h (VRef a) =
     (case deref h a of
        HArr xs \<Rightarrow> map_option JArr (those (map (reify n h) xs))
      | HObj ps \<Rightarrow>
          map_option JObj
            (those (map (\<lambda>p. map_option (Pair (fst p)) (reify n h (snd p)))
                        (filter (\<lambda>p. snd p \<noteq> VUndef) ps))))"

section \<open>The GraphQL schema and the query document\<close>

text \<open>
  Building the schema, parsing and validating the query and the type cursor of the walk
  belong to the \<open>graphql\<close> library.  A schema is the table of its named types; a type
  reference is a name under list and non-null wrappers, and \<open>instanceof\<close> on a named type
  is a look-up of its kind.  The five builtin scalars are part of every schema.
  An enum value built from schema text or from introspection has its name as value, so
  an enum is the list of its value names.
\<close>

datatype gtype = Named string | ListT gtype | NonNullT gtype

type_synonym fielddef = "gtype \<times> val"   \<comment> \<open>type and description\<close>

datatype typeDefn =
    ScalarType
  | ObjectType "(string \<times> fielddef) list"
  | InterfaceType "(string \<times> fielddef) list"
  | UnionType
  | EnumType val "string list"
  | InputObjectType val "(string \<times> fielddef) list"

record schema =
  types :: "(string \<times> typeDefn) list"
  queryType :: "string option"
  mutationType :: "string option"
  subscriptionType :: "string option"

definition builtinScalars :: "string list" where
  "builtinScalars = [''Int'', ''Float'', ''String'', ''Boolean'', ''ID'']"

definition typeKind :: "schema \<Rightarrow> string \<Rightarrow> typeDefn option" where
  "typeKind sch n = (if n \<in> set builtinScalars then Some ScalarType else map_of (types sch) n)"

fun gtype_toString :: "gtype \<Rightarrow> string" where
  "gtype_toString (Named n) = n"
| "gtype_toString (ListT t) = ''['' @ gtype_toString t @ '']''"
| "gtype_toString (NonNullT t) = gtype_toString t @ ''!''"

fun getNamedType :: "gtype \<Rightarrow> string" where
  "getNamedType (Named n) = n"
| "getNamedType (ListT t) = getNamedType t"
| "getNamedType (NonNullT t) = getNamedType t"

datatype opkind = Query | Mutation | Subscription

type_synonym loc = nat

datatype selection =
    Field loc "string option" string "selection list"
  | FragmentSpread loc string
  | InlineFragment loc "string option" "selection list"

datatype definitionNode =
    OperationDefinition loc opkind "string option" "(string \<times> gtype) list" "selection list"
  | FragmentDefinition loc string string "selection list"

record document =
  locationOffset_line :: nat
  definitions :: "definitionNode list"

section \<open>Scalar resolver\<close>

text \<open>The unknown-scalar callback returns a plain object (its properties) or nothing.\<close>

type_synonym callback = "string \<Rightarrow> (string \<times> json) list option"

text \<open>Function \<open>getScalarType\<close> of the source; \<open>scalarConfig\<close> is the cache object.\<close>

definition getScalarType :: "string \<Rightarrow> val \<Rightarrow> callback \<Rightarrow> heap \<Rightarrow> exn + (val \<times> heap)" where
  "getScalarType typeName scalarConfig onUnknownScalar h =
     thenE (getProp h scalarConfig typeName) (\<lambda>c.
       if truthy c then Inr (c, h)
       else (case onUnknownScalar typeName of
               Some ps \<Rightarrow>
                 (let (r, h1) = alloc_json (JObj ps) h
                  in thenE (setProp h1 scalarConfig typeName r) (\<lambda>h2. Inr (r, h2)))
             | None \<Rightarrow> Inl (UnknownScalarError (''Unknown scalar: '' @ typeName))))"

section \<open>Type mapper for output fields\<close>

text \<open>The constant table \<open>typeMap\<close>.  Its \<open>items\<close> objects are never written by any
  handler, so each use lays out its own copy.\<close>

definition prim :: "string \<Rightarrow> (string \<times> json) list" where
  "prim t = [(''type'', JStr t)]"

definition arrayOf :: "json \<Rightarrow> (string \<times> json) list" where
  "arrayOf t = [(''type'', JStr ''array''), (''items'', JObj [(''type'', t)])]"

definition orNull :: "string \<Rightarrow> json" where
  "orNull t = JArr [JStr t, JStr ''null'']"

definition typeMap :: "(string \<times> (string \<times> json) list) list" where
  "typeMap =
    [(''ID'', prim ''string''),
     (''[ID]'', arrayOf (orNull ''string'')),
     (''[ID!]'', arrayOf (JStr ''string'')),
     (''String'', prim ''string''),
     (''[String!]'', arrayOf (JStr ''string'')),
     (''[String]'', arrayOf (orNull ''string'')),
     (''[Int]'', arrayOf (orNull ''integer'')),
     (''[Int!]'', arrayOf (JStr ''integer'')),
     (''[Float]'', arrayOf (orNull ''number'')),
     (''[Float!]'', arrayOf (JStr ''number'')),
     (''[Boolean]'', arrayOf (orNull ''boolean'')),
     (''[Boolean!]'', arrayOf (JStr ''boolean'')),
     (''Int'', prim ''integer''),
     (''Float'', prim ''number''),
     (''Boolean'', prim ''boolean'')]"

text \<open>\<open>typeName.replace(/[!]$/, '')\<close>\<close>

definition withoutBang :: "string \<Rightarrow> string" where
  "withoutBang s = (if s \<noteq> [] \<and> last s = CHR ''!'' then butlast s else s)"

text \<open>\<open>d || undefined\<close>\<close>

definition orUndefined :: "val \<Rightarrow> val" where
  "orUndefined d = (if truthy d then d else VUndef)"

text \<open>\<open>x instanceof GraphQLNonNull\<close> and \<open>x.ofType\<close> after that test.\<close>

fun isNonNull :: "gtype \<Rightarrow> bool" where
  "isNonNull (NonNullT t) = True"
| "isNonNull t = False"

fun unwrapNonNull :: "gtype \<Rightarrow> gtype" where
  "unwrapNonNull (NonNullT t) = t"
| "unwrapNonNull t = t"

text \<open>The kind of a type object: what \<open>instanceof\<close> tells the named types apart by.\<close>

fun kindOf :: "schema \<Rightarrow> gtype \<Rightarrow> typeDefn option" where
  "kindOf sch (Named n) = typeKind sch n"
| "kindOf sch t = None"

text \<open>\<open>[v, 'null']\<close> stored into \<open>target.type\<close>, where \<open>v\<close> is \<open>target.type\<close>.\<close>

definition wrapTypeWithNull :: "val \<Rightarrow> heap \<Rightarrow> exn + heap" where
  "wrapTypeWithNull target h =
     thenE (getProp h target ''type'') (\<lambda>t.
       let (arr, h1) = alloc (HArr [t, VStr ''null'']) h
       in setProp h1 target ''type'' arr)"

text \<open>The branch of \<open>fieldDefToOpenApiField\<close> for an entry of \<open>typeMap\<close>.\<close>

definition fieldOfTypeMap :: "(string \<times> json) list \<Rightarrow> bool \<Rightarrow> val \<Rightarrow> heap \<Rightarrow> exn + (val \<times> heap)" where
  "fieldOfTypeMap entry nullable description h =
     (let (retVal, h1) = alloc_json (JObj entry) h
      in thenE (if nullable then wrapTypeWithNull retVal h1 else Inr h1) (\<lambda>h2.
           Inr (alloc (HObj (upd_prop ''description'' description (spread h2 retVal))) h2)))"

text \<open>The branch for a list type.  The three tests on the item type exclude each other,
  so they are one case distinction here.\<close>

definition fieldOfList ::
  "schema \<Rightarrow> gtype \<Rightarrow> val \<Rightarrow> val \<Rightarrow> callback \<Rightarrow> heap \<Rightarrow> exn + (val \<times> heap)" where
  "fieldOfList sch ofType openApiType scalarConfig onUnknownScalar h =
     thenE (setProp h openApiType ''type'' (VStr ''array'')) (\<lambda>h1.
       let itemType = unwrapNonNull ofType
       in thenE
            (case kindOf sch itemType of
               Some (ObjectType fs) \<Rightarrow>
                 (let (ty, h2) = alloc (HArr [VStr ''object'', VStr ''null'']) h1;
                      (props, h3) = alloc (HObj []) h2;
                      (items, h4) = alloc (HObj [(''type'', ty), (''properties'', props)]) h3
                  in setProp h4 openApiType ''items'' items)
             | Some UnionType \<Rightarrow>
                 (let (anyOf, h2) = alloc (HArr []) h1;
                      (items, h3) = alloc (HObj [(''anyOf'', anyOf)]) h2
                  in setProp h3 openApiType ''items'' items)
             | Some ScalarType \<Rightarrow>
                 thenE (getScalarType (getNamedType itemType) scalarConfig onUnknownScalar h1)
                   (\<lambda>(items, h2).
                      thenE (setProp h2 openApiType ''items'' items) (\<lambda>h3.
                        wrapTypeWithNull items h3))
             | _ \<Rightarrow> Inr h1)
            (\<lambda>h5. Inr (openApiType, h5)))"

text \<open>The branches for a named type that is not in \<open>typeMap\<close>.\<close>

definition fieldOfNamed ::
  "schema \<Rightarrow> gtype \<Rightarrow> bool \<Rightarrow> val \<Rightarrow> val \<Rightarrow> val \<Rightarrow> callback \<Rightarrow> heap \<Rightarrow> exn + (val \<times> heap)" where
  "fieldOfNamed sch ty nullable description openApiType scalarConfig onUnknownScalar h =
     (case kindOf sch ty of
        Some (ObjectType fs) \<Rightarrow>
          thenE (setProp h openApiType ''type'' (VStr ''object'')) (\<lambda>h1.
            let (props, h2) = alloc (HObj []) h1
            in thenE (setProp h2 openApiType ''properties'' props) (\<lambda>h3.
                 Inr (openApiType, h3)))
      | Some (EnumType d vs) \<Rightarrow>
          (let (t, h1) = (if nullable then alloc (HArr [VStr ''string'', VStr ''null'']) h
                          else (VStr ''string'', h))
           in thenE (setProp h1 openApiType ''type'' t) (\<lambda>h2.
                let (en, h3) = alloc (HArr (map VStr vs)) h2
                in thenE (setProp h3 openApiType ''enum'' en) (\<lambda>h4.
                     Inr (openApiType, h4))))
      | Some UnionType \<Rightarrow>
          (let (anyOf, h1) = alloc (HArr []) h
           in thenE (setProp h1 openApiType ''anyOf'' anyOf) (\<lambda>h2.
                Inr (openApiType, h2)))
      | _ \<Rightarrow>
          thenE (getScalarType (getNamedType ty) scalarConfig onUnknownScalar h)
            (\<lambda>(t, h1).
               Inr (alloc (HObj (upd_prop ''description'' description (spread h1 t))) h1)))"

text \<open>Function \<open>fieldDefToOpenApiField\<close> of the source, applied to the field definition
  the type cursor holds.\<close>

definition fieldDefToOpenApiField ::
  "schema \<Rightarrow> fielddef \<Rightarrow> val \<Rightarrow> callback \<Rightarrow> heap \<Rightarrow> exn + (val \<times> heap)" where
  "fieldDefToOpenApiField sch fieldDef scalarConfig onUnknownScalar h0 =
    (let typeName = gtype_toString (fst fieldDef);
         description = orUndefined (snd fieldDef);
         nullable = (\<not> isNonNull (fst fieldDef));
         ty = unwrapNonNull (fst fieldDef);
         (openApiType, h) =
            alloc (HObj [(''items'', VUndef), (''properties'', VUndef), (''type'', VUndef),
                         (''enum'', VUndef), (''anyOf'', VUndef),
                         (''description'', description)]) h0;
         typeNameWithoutBang = withoutBang typeName
     in case map_of typeMap typeNameWithoutBang of
          Some entry \<Rightarrow> fieldOfTypeMap entry nullable description h
        | None \<Rightarrow>
            (case ty of
               ListT ofType \<Rightarrow> fieldOfList sch ofType openApiType scalarConfig onUnknownScalar h
             | _ \<Rightarrow> fieldOfNamed sch ty nullable description openApiType scalarConfig
                     onUnknownScalar h))"

section \<open>Type mapper for input types\<close>

text \<open>Decimal digits of a number, as string concatenation prints it.\<close>

function show_nat :: "nat \<Rightarrow> string" where
  "show_nat n =
     (if n < 10 then [char_of (48 + n)]
      else show_nat (n div 10) @ [char_of (48 + n mod 10)])"
  by pat_completeness auto
termination
  by (relation "measure id") auto

text \<open>Function \<open>recurseInputType\<close> of the source.  The tests run in the source's order:
  input object, list, scalar, enum, non-null; a named type is told apart by its kind.
  \<open>recurseFields\<close> is the \<open>reduce\<close> over the fields of an input object, filling the
  object \<open>properties\<close>.\<close>

function recurseInputType ::
    "schema \<Rightarrow> gtype \<Rightarrow> nat \<Rightarrow> val \<Rightarrow> callback \<Rightarrow> heap \<Rightarrow> exn + (val \<times> heap)"
  and recurseFields ::
    "schema \<Rightarrow> (string \<times> fielddef) list \<Rightarrow> nat \<Rightarrow> val \<Rightarrow> val \<Rightarrow> callback \<Rightarrow> heap \<Rightarrow> exn + heap"
where
  "recurseInputType sch obj depth scalarConfig onUnknownScalar h =
     (if depth > 50 then Inl (Error (''depth limit exceeded: '' @ show_nat depth))
      else case obj of
        Named name \<Rightarrow>
          (case typeKind sch name of
             Some (InputObjectType d fs) \<Rightarrow>
               (let (properties, h1) = alloc (HObj []) h
                in thenE (recurseFields sch fs (depth + 1) properties scalarConfig onUnknownScalar h1)
                     (\<lambda>h2.
                        let (ty, h3) = alloc (HArr [VStr ''object'', VStr ''null'']) h2
                        in Inr (alloc (HObj [(''type'', ty), (''description'', orUndefined d),
                                             (''properties'', properties)]) h3)))
           | Some ScalarType \<Rightarrow>
               (if name = ''Float'' then
                  (let (ty, h1) = alloc (HArr [VStr ''number'', VStr ''null'']) h
                   in Inr (alloc (HObj [(''type'', ty)]) h1))
                else if name = ''Int'' then
                  (let (ty, h1) = alloc (HArr [VStr ''integer'', VStr ''null'']) h
                   in Inr (alloc (HObj [(''type'', ty)]) h1))
                else if name = ''String'' then
                  (let (ty, h1) = alloc (HArr [VStr ''string'', VStr ''null'']) h
                   in Inr (alloc (HObj [(''type'', ty)]) h1))
                else if name = ''Boolean'' then
                  (let (ty, h1) = alloc (HArr [VStr ''boolean'', VStr ''null'']) h
                   in Inr (alloc (HObj [(''type'', ty)]) h1))
                else if name = ''ID'' then
                  (let (ty, h1) = alloc (HArr [VStr ''string'', VStr ''null'']) h
                   in Inr (alloc (HObj [(''type'', ty)]) h1))
                else getScalarType name scalarConfig onUnknownScalar h)
           | Some (EnumType d vs) \<Rightarrow>
               (let (ty, h1) = alloc (HArr [VStr ''string'', VStr ''null'']) h;
                    (en, h2) = alloc (HArr (map VStr vs)) h1
                in Inr (alloc (HObj [(''type'', ty), (''description'', orUndefined d),
                                     (''enum'', en)]) h2))
           | _ \<Rightarrow> Inl (Error (''Unexpected InputType: '' @ gtype_toString obj)))
      | ListT ofType \<Rightarrow>
          (let (ty, h1) = alloc (HArr [VStr ''array'', VStr ''null'']) h
           in thenE (recurseInputType sch ofType (depth + 1) scalarConfig onUnknownScalar h1)
                (\<lambda>(items, h2). Inr (alloc (HObj [(''type'', ty), (''items'', items)]) h2)))
      | NonNullT ofType \<Rightarrow>
          thenE (recurseInputType sch ofType (depth + 1) scalarConfig onUnknownScalar h)
            (\<lambda>(r, h1).
               let (retVal, h2) = alloc (HObj (spread h1 r)) h1
               in thenE (getProp h2 retVal ''type'') (\<lambda>t.
                    case t of
                      VRef a \<Rightarrow>
                        (case deref h2 a of
                           HArr xs \<Rightarrow>
                             (let ys = filter (\<lambda>entry. entry \<noteq> VStr ''null'') xs;
                                  (arr, h3) = alloc (HArr ys) h2
                              in thenE (setProp h3 retVal ''type'' arr) (\<lambda>h4.
                                   if length ys = 1
                                   then thenE (setProp h4 retVal ''type'' (ys ! 0)) (\<lambda>h5.
                                          Inr (retVal, h5))
                                   else Inr (retVal, h4)))
                         | HObj ps \<Rightarrow> Inr (retVal, h2))
                    | _ \<Rightarrow> Inr (retVal, h2))))"
| "recurseFields sch [] depth properties scalarConfig onUnknownScalar h = Inr h"
| "recurseFields sch (f # fs) depth properties scalarConfig onUnknownScalar h =
     thenE (recurseInputType sch (fst (snd f)) depth scalarConfig onUnknownScalar h)
       (\<lambda>(r, h1).
          thenE (setProp h1 properties (fst f) r) (\<lambda>h2.
            thenE (setProp h2 r ''description'' (snd (snd f))) (\<lambda>h3.
              recurseFields sch fs depth properties scalarConfig onUnknownScalar h3)))"
  by pat_completeness auto
termination
  by (relation "measures
        [\<lambda>x. case x of Inl (sch, obj, depth, r) \<Rightarrow> 2 * (51 - depth)
                      | Inr (sch, fs, depth, r) \<Rightarrow> 2 * (51 - depth) + 1,
         \<lambda>x. case x of Inl r \<Rightarrow> 0 | Inr (sch, fs, r) \<Rightarrow> length fs]") auto

declare recurseInputType.simps [simp del]

section \<open>The type cursor\<close>

text \<open>
  The walk keeps a type cursor in step with the node it visits (\<open>TypeInfo\<close> of the
  library).  Here the cursor is the parent type handed down the recursion: the named
  composite type whose fields the current selection set selects, if there is one.
\<close>

definition isCompositeType :: "schema \<Rightarrow> string \<Rightarrow> bool" where
  "isCompositeType sch n =
     (case typeKind sch n of
        Some (ObjectType fs) \<Rightarrow> True
      | Some (InterfaceType fs) \<Rightarrow> True
      | Some UnionType \<Rightarrow> True
      | _ \<Rightarrow> False)"

definition compositeOrNone :: "schema \<Rightarrow> string \<Rightarrow> string option" where
  "compositeOrNone sch n = (if isCompositeType sch n then Some n else None)"

fun rootTypeName :: "schema \<Rightarrow> opkind \<Rightarrow> string option" where
  "rootTypeName sch Query = queryType sch"
| "rootTypeName sch Mutation = mutationType sch"
| "rootTypeName sch Subscription = subscriptionType sch"

definition operationParent :: "schema \<Rightarrow> opkind \<Rightarrow> string option" where
  "operationParent sch k =
     (case rootTypeName sch k of
        None \<Rightarrow> None
      | Some n \<Rightarrow> (case typeKind sch n of Some (ObjectType fs) \<Rightarrow> Some n | _ \<Rightarrow> None))"

text \<open>The field definition the cursor holds at a field: the three meta fields first,
  then the fields of an object or interface parent.\<close>

definition getFieldDef :: "schema \<Rightarrow> string option \<Rightarrow> string \<Rightarrow> fielddef option" where
  "getFieldDef sch parent name =
     (case parent of
        None \<Rightarrow> None
      | Some p \<Rightarrow>
          if name = ''__schema'' \<and> queryType sch = Some p
          then Some (NonNullT (Named ''__Schema''),
                     VStr ''Access the current type schema of this server.'')
          else if name = ''__type'' \<and> queryType sch = Some p
          then Some (Named ''__Type'', VStr ''Request the type information of a single type.'')
          else if name = ''__typename'' \<and> isCompositeType sch p
          then Some (NonNullT (Named ''String''),
                     VStr ''The name of the current Object type at runtime.'')
          else (case typeKind sch p of
                  Some (ObjectType fs) \<Rightarrow> map_of fs name
                | Some (InterfaceType fs) \<Rightarrow> map_of fs name
                | _ \<Rightarrow> None))"

definition fieldParent :: "schema \<Rightarrow> string option \<Rightarrow> string \<Rightarrow> string option" where
  "fieldParent sch parent name =
     (case getFieldDef sch parent name of
        None \<Rightarrow> None
      | Some fd \<Rightarrow> compositeOrNone sch (getNamedType (fst fd)))"

definition inlineParent :: "schema \<Rightarrow> string option \<Rightarrow> string option \<Rightarrow> string option" where
  "inlineParent sch parent typeCondition =
     (case typeCondition of None \<Rightarrow> parent | Some n \<Rightarrow> compositeOrNone sch n)"

fun isInputType :: "schema \<Rightarrow> gtype \<Rightarrow> bool" where
  "isInputType sch (Named n) =
     (case typeKind sch n of
        Some ScalarType \<Rightarrow> True
      | Some (EnumType d vs) \<Rightarrow> True
      | Some (InputObjectType d fs) \<Rightarrow> True
      | _ \<Rightarrow> False)"
| "isInputType sch (ListT t) = isInputType sch t"
| "isInputType sch (NonNullT t) = isInputType sch t"

section \<open>The walk: its state and its handlers\<close>

text \<open>The variables the handlers of \<open>toOpenAPI\<close> close over.  \<open>env\<close> holds the ones that
  are never reassigned during the walk, \<open>state\<close> the store and the ones that are.\<close>

record env =
  graphqlSchema :: schema
  onUnknownScalar :: callback
  scalarConfig :: val
  openApiSchema :: val
  sourceLine :: nat

record state =
  heap :: heap
  error :: "string option"
  operationDef :: val
  currentSelection :: "(loc \<times> val) list"
  fragments :: "(string \<times> val) list"

text \<open>\<open>currentSelection[0].openApiType\<close>\<close>

definition topOfStack :: "state \<Rightarrow> exn + val" where
  "topOfStack st = (case currentSelection st of [] \<Rightarrow> Inl TypeError | fr # frs \<Rightarrow> Inr (snd fr))"

text \<open>\<open>currentSelection.unshift({node, openApiType})\<close>\<close>

definition push :: "loc \<Rightarrow> val \<Rightarrow> state \<Rightarrow> state" where
  "push l v st = st\<lparr>currentSelection := (l, v) # currentSelection st\<rparr>"

text \<open>\<open>currentSelection.shift().openApiType\<close>\<close>

definition shift :: "state \<Rightarrow> exn + state" where
  "shift st =
     (case currentSelection st of
        [] \<Rightarrow> Inl TypeError
      | fr # frs \<Rightarrow> Inr (st\<lparr>currentSelection := frs\<rparr>))"

text \<open>The \<open>enter\<close> handler of a fragment definition.  The cursor's type is the named type
  of the type condition; it is never a non-null wrapper, so the handler's test
  \<open>fragmentType instanceof GraphQLNonNull\<close> is false and the type is \<open>['object', 'null']\<close>.\<close>

definition fragmentEnter :: "env \<Rightarrow> loc \<Rightarrow> string \<Rightarrow> state \<Rightarrow> exn + state" where
  "fragmentEnter en l typeCondition st =
     (case typeKind (graphqlSchema en) typeCondition of
        Some UnionType \<Rightarrow>
          (let (anyOf, h1) = alloc (HArr []) (heap st);
               (openApiType, h2) = alloc (HObj [(''anyOf'', anyOf)]) h1
           in Inr (push l openApiType (st\<lparr>heap := h2\<rparr>)))
      | _ \<Rightarrow>
          (let (ty, h1) = alloc (HArr [VStr ''object'', VStr ''null'']) (heap st);
               (props, h2) = alloc (HObj []) h1;
               (openApiType, h3) = alloc (HObj [(''type'', ty), (''properties'', props)]) h2
           in Inr (push l openApiType (st\<lparr>heap := h3\<rparr>))))"

text \<open>The \<open>leave\<close> handler of a fragment definition; \<open>fragments\<close> is the fragment table.\<close>

definition fragmentLeave :: "string \<Rightarrow> state \<Rightarrow> exn + state" where
  "fragmentLeave name st =
     thenE (topOfStack st) (\<lambda>result.
       thenE (shift st) (\<lambda>st1.
         Inr (st1\<lparr>fragments := upd_prop name result (fragments st1)\<rparr>)))"

definition noOperationNameMessage :: "nat \<Rightarrow> string" where
  "noOperationNameMessage line =
     ''GraphQLToOpenAPIConverter requires a named operation on line '' @ show_nat line @
     '' of input query''"

text \<open>The \<open>enter\<close> handler of an operation; the flag says that it returned \<open>BREAK\<close>.\<close>

definition operationEnter :: "env \<Rightarrow> loc \<Rightarrow> string option \<Rightarrow> state \<Rightarrow> exn + (bool \<times> state)" where
  "operationEnter en l name st =
     (let (props, h1) = alloc (HObj []) (heap st);
          (openApiType, h2) = alloc (HObj [(''type'', VStr ''object''), (''properties'', props)]) h1
      in case name of
           None \<Rightarrow>
             Inr (True, st\<lparr>heap := h2, error := Some (noOperationNameMessage (sourceLine en))\<rparr>)
         | Some n \<Rightarrow>
             (let (params, h3) = alloc (HArr []) h2;
                  (media, h4) = alloc (HObj [(''schema'', openApiType)]) h3;
                  (content, h5) = alloc (HObj [(''application/json'', media)]) h4;
                  (ok, h6) = alloc (HObj [(''description'', VStr ''response''),
                                          (''content'', content)]) h5;
                  (responses, h7) = alloc (HObj [(''200'', ok)]) h6;
                  (get, h8) = alloc (HObj [(''parameters'', params),
                                           (''responses'', responses)]) h7;
                  (opDef, h9) = alloc (HObj [(''get'', get)]) h8
              in thenE (getProp h9 (openApiSchema en) ''paths'') (\<lambda>paths.
                   thenE (setProp h9 paths (''/'' @ n) opDef) (\<lambda>h10.
                     Inr (False, push l openApiType
                                   (st\<lparr>heap := h10, operationDef := opDef\<rparr>))))))"

text \<open>The handler of a variable definition.  The cursor's input type is \<open>undefined\<close>
  when the declared type is not an input type of the schema, and \<open>recurseInputType\<close>
  then throws at its last line.\<close>

definition variableDefinition :: "env \<Rightarrow> string \<Rightarrow> gtype \<Rightarrow> state \<Rightarrow> exn + state" where
  "variableDefinition en name ty st =
     thenE (if isInputType (graphqlSchema en) ty
            then recurseInputType (graphqlSchema en) ty 0 (scalarConfig en)
                   (onUnknownScalar en) (heap st)
            else Inl (Error ''Unexpected InputType: undefined''))
       (\<lambda>(t, h1).
          thenE (getProp h1 t ''type'') (\<lambda>tType.
          thenE (getProp h1 t ''items'') (\<lambda>tItems.
          thenE (getProp h1 t ''properties'') (\<lambda>tProperties.
          thenE (getProp h1 t ''description'') (\<lambda>tDescription.
          thenE (getProp h1 (operationDef st) ''get'') (\<lambda>get.
          thenE (getProp h1 get ''parameters'') (\<lambda>parameters.
            if isOfTypeOrContains h1 tType ''object'' \<or> isOfTypeOrContains h1 tType ''array''
            then
              (let (sch, h2) = alloc (HObj [(''type'', tType), (''items'', tItems),
                                            (''properties'', tProperties)]) h1;
                   (param, h3) =
                     alloc (HObj [(''name'', VStr name), (''in'', VStr ''query''),
                                  (''required'', VBool (\<not> isOfTypeOrContains h1 tType ''null'')),
                                  (''schema'', sch),
                                  (''description'', orUndefined tDescription)]) h2
               in thenE (arrPush h3 parameters param) (\<lambda>h4. Inr (st\<lparr>heap := h4\<rparr>)))
            else
              (let (sch, h2) = alloc (HObj [(''type'', tType)]) h1;
                   (param, h3) =
                     alloc (HObj [(''name'', VStr name), (''in'', VStr ''query''),
                                  (''required'', VBool (\<not> isOfTypeOrContains h1 tType ''null'')),
                                  (''schema'', sch),
                                  (''description'', orUndefined tDescription)]) h2
               in thenE (arrPush h3 parameters param) (\<lambda>h4. Inr (st\<lparr>heap := h4\<rparr>))))))))))"

text \<open>The \<open>enter\<close> handler of a fragment spread; a name the table lacks reads
  \<open>undefined\<close>.\<close>

definition fragmentSpreadEnter :: "string \<Rightarrow> state \<Rightarrow> exn + state" where
  "fragmentSpreadEnter name st =
     thenE (topOfStack st) (\<lambda>openApiType.
       let fragment = (case map_of (fragments st) name of Some f \<Rightarrow> f | None \<Rightarrow> VUndef);
           h = heap st
       in thenE (getProp h openApiType ''anyOf'') (\<lambda>anyOf.
            if truthy anyOf then
              thenE (getProp h fragment ''anyOf'') (\<lambda>fa.
                thenE (setProp h openApiType ''anyOf'' fa) (\<lambda>h1. Inr (st\<lparr>heap := h1\<rparr>)))
            else
              thenE (getProp h openApiType ''items'') (\<lambda>items.
                if truthy items then
                  thenE (getProp h fragment ''properties'') (\<lambda>fp.
                    thenE (setProp h items ''properties'' fp) (\<lambda>h1. Inr (st\<lparr>heap := h1\<rparr>)))
                else
                  thenE (getProp h fragment ''properties'') (\<lambda>fp.
                    thenE (setProp h openApiType ''properties'' fp) (\<lambda>h1.
                      Inr (st\<lparr>heap := h1\<rparr>))))))"

text \<open>The \<open>enter\<close> handler of a field, after the cursor has looked the field up.  Its
  body has three parts: mapping the field's type, attaching the node to the parent
  frame's container, and pushing a frame when the node is a container itself.\<close>

definition attachField :: "heap \<Rightarrow> val \<Rightarrow> string \<Rightarrow> val \<Rightarrow> exn + heap" where
  "attachField h1 parentObj name openApiType =
     thenE (getProp h1 parentObj ''type'') (\<lambda>parentType.
       if isOfTypeOrContains h1 parentType ''object''
       then thenE (getProp h1 parentObj ''properties'') (\<lambda>props.
              setProp h1 props name openApiType)
       else thenE (getProp h1 parentObj ''items'') (\<lambda>items.
              thenE (getProp h1 items ''properties'') (\<lambda>props.
                setProp h1 props name openApiType)))"

definition pushIfContainer :: "loc \<Rightarrow> val \<Rightarrow> state \<Rightarrow> exn + state" where
  "pushIfContainer l openApiType st2 =
     (let h2 = heap st2
      in thenE (getProp h2 openApiType ''type'') (\<lambda>ty.
         thenE (getProp h2 openApiType ''items'') (\<lambda>items.
         thenE (getProp h2 openApiType ''anyOf'') (\<lambda>anyOf.
           if isOfTypeOrContains h2 ty ''array'' \<and>
              isOfTypeOrContains h2 (getPropOpt h2 items ''type'') ''object''
           then Inr (push l openApiType st2)
           else if isOfTypeOrContains h2 ty ''array'' \<and> truthy (getPropOpt h2 items ''anyOf'')
           then Inr (push l openApiType st2)
           else if truthy anyOf
           then Inr (push l openApiType st2)
           else if isOfTypeOrContains h2 ty ''object''
           then Inr (push l openApiType st2)
           else Inr st2))))"

definition fieldEnter ::
  "env \<Rightarrow> string option \<Rightarrow> loc \<Rightarrow> string option \<Rightarrow> string \<Rightarrow> state \<Rightarrow> exn + state" where
  "fieldEnter en parent l alias fname st =
     (let name = (case alias of Some a \<Rightarrow> a | None \<Rightarrow> fname)
      in case getFieldDef (graphqlSchema en) parent fname of
           None \<Rightarrow> Inl TypeError
         | Some fieldDef \<Rightarrow>
             thenE (fieldDefToOpenApiField (graphqlSchema en) fieldDef (scalarConfig en)
                      (onUnknownScalar en) (heap st))
               (\<lambda>(openApiType, h1).
                  thenE (topOfStack st) (\<lambda>parentObj.
                    thenE (attachField h1 parentObj name openApiType) (\<lambda>h2.
                      pushIfContainer l openApiType (st\<lparr>heap := h2\<rparr>)))))"

text \<open>The \<open>leave\<close> handler of a field: the frames are matched by the \<open>loc\<close> of their
  nodes, and the parser gives every node a \<open>loc\<close> of its own.\<close>

definition fieldLeave :: "loc \<Rightarrow> state \<Rightarrow> exn + state" where
  "fieldLeave l st =
     (case currentSelection st of
        [] \<Rightarrow> Inl TypeError
      | fr # frs \<Rightarrow> if fst fr = l then shift st else Inr st)"

text \<open>The handlers of an inline fragment.\<close>

definition inlineFragmentEnter :: "loc \<Rightarrow> state \<Rightarrow> exn + state" where
  "inlineFragmentEnter l st =
     (let (props, h1) = alloc (HObj []) (heap st);
          (openApiType, h2) = alloc (HObj [(''type'', VStr ''object''), (''properties'', props)]) h1
      in thenE (topOfStack st) (\<lambda>top.
         thenE (getProp h2 top ''items'') (\<lambda>items.
           let itemsAnyOf = getPropOpt h2 items ''anyOf''
           in thenE (if truthy itemsAnyOf then arrPush h2 itemsAnyOf openApiType
                     else thenE (getProp h2 top ''anyOf'') (\<lambda>anyOf. arrPush h2 anyOf openApiType))
                (\<lambda>h3. Inr (push l openApiType (st\<lparr>heap := h3\<rparr>))))))"

definition inlineFragmentLeave :: "state \<Rightarrow> exn + state" where
  "inlineFragmentLeave st = shift st"

section \<open>The walk\<close>

text \<open>
  \<open>visit\<close> walks the document depth first, children in the order of the library's key
  table: an operation's variable definitions before its selection set, a field's
  selection set between its \<open>enter\<close> and \<open>leave\<close>.  No handler of a selection returns
  \<open>BREAK\<close> or \<open>false\<close>, so every selection of a visited selection set is visited.
\<close>

fun visitSelection :: "env \<Rightarrow> string option \<Rightarrow> selection \<Rightarrow> state \<Rightarrow> exn + state"
  and visitSelections :: "env \<Rightarrow> string option \<Rightarrow> selection list \<Rightarrow> state \<Rightarrow> exn + state"
where
  "visitSelection en parent (Field l alias name sels) st =
     thenE (fieldEnter en parent l alias name st) (\<lambda>st1.
       thenE (visitSelections en (fieldParent (graphqlSchema en) parent name) sels st1) (\<lambda>st2.
         fieldLeave l st2))"
| "visitSelection en parent (FragmentSpread l name) st = fragmentSpreadEnter name st"
| "visitSelection en parent (InlineFragment l typeCondition sels) st =
     thenE (inlineFragmentEnter l st) (\<lambda>st1.
       thenE (visitSelections en (inlineParent (graphqlSchema en) parent typeCondition) sels st1)
         (\<lambda>st2. inlineFragmentLeave st2))"
| "visitSelections en parent [] st = Inr st"
| "visitSelections en parent (s # ss) st =
     thenE (visitSelection en parent s st) (\<lambda>st1. visitSelections en parent ss st1)"

fun visitVariables :: "env \<Rightarrow> (string \<times> gtype) list \<Rightarrow> state \<Rightarrow> exn + state" where
  "visitVariables en [] st = Inr st"
| "visitVariables en (v # vs) st =
     thenE (variableDefinition en (fst v) (snd v) st) (\<lambda>st1. visitVariables en vs st1)"

fun visitDefinition :: "env \<Rightarrow> definitionNode \<Rightarrow> state \<Rightarrow> exn + (bool \<times> state)" where
  "visitDefinition en (OperationDefinition l k name vars sels) st =
     thenE (operationEnter en l name st) (\<lambda>(brk, st1).
       if brk then Inr (True, st1)
       else thenE (visitVariables en vars st1) (\<lambda>st2.
              thenE (visitSelections en (operationParent (graphqlSchema en) k) sels st2) (\<lambda>st3.
                Inr (False, st3))))"
| "visitDefinition en (FragmentDefinition l name typeCondition sels) st =
     thenE (fragmentEnter en l typeCondition st) (\<lambda>st1.
       thenE (visitSelections en (compositeOrNone (graphqlSchema en) typeCondition) sels st1)
         (\<lambda>st2. thenE (fragmentLeave name st2) (\<lambda>st3. Inr (False, st3))))"

fun visitDefinitions :: "env \<Rightarrow> definitionNode list \<Rightarrow> state \<Rightarrow> exn + (bool \<times> state)" where
  "visitDefinitions en [] st = Inr (False, st)"
| "visitDefinitions en (d # ds) st =
     thenE (visitDefinition en d st) (\<lambda>(brk, st1).
       if brk then Inr (True, st1) else visitDefinitions en ds st1)"

section \<open>The converter\<close>

text \<open>
  \<open>buildSchema\<close>, \<open>buildClientSchema\<close>, \<open>parse\<close> and \<open>validate\<close> are functions of the
  library and are parameters here; a \<open>GraphQLError\<close> is its message.  A parsed document
  carries the line offset of its source.
\<close>

type_synonym gerror = string

record converter =
  schemaError :: "gerror option"
  builtSchema :: "schema option"
  unknownScalar :: callback
  scalarCache :: val

datatype result =
    RSchemaError gerror
  | RQueryErrors "gerror list"
  | RError string   \<comment> \<open>a \<open>NoOperationNameError\<close> with this message\<close>
  | ROpenApiSchema val

text \<open>The constructor.  An empty schema text is falsy, like an absent one.\<close>

definition newConverter ::
  "(string \<Rightarrow> gerror + schema) \<Rightarrow> ('i \<Rightarrow> gerror + schema) \<Rightarrow>
   string option \<Rightarrow> 'i option \<Rightarrow> callback option \<Rightarrow> val option \<Rightarrow> heap \<Rightarrow>
   exn + (converter \<times> heap)" where
  "newConverter buildSchema buildClientSchema schemaText introspectionSchema onUnknownScalar'
     scalarConfig' h =
     (let cb = (case onUnknownScalar' of Some f \<Rightarrow> f | None \<Rightarrow> (\<lambda>s. None));
          (sc, h1) = (case scalarConfig' of Some c \<Rightarrow> (c, h) | None \<Rightarrow> alloc (HObj []) h);
          built = (\<lambda>r. case r of
                     Inr g \<Rightarrow> \<lparr>schemaError = None, builtSchema = Some g,
                               unknownScalar = cb, scalarCache = sc\<rparr>
                   | Inl err \<Rightarrow> \<lparr>schemaError = Some err, builtSchema = None,
                                 unknownScalar = cb, scalarCache = sc\<rparr>)
      in if schemaText \<noteq> None \<and> schemaText \<noteq> Some []
         then Inr (built (buildSchema (the schemaText)), h1)
         else (case introspectionSchema of
                 Some i \<Rightarrow> Inr (built (buildClientSchema i), h1)
               | None \<Rightarrow>
                   Inl (MissingSchemaError ''neither schema nor introspection schema supplied'')))"

definition skeleton :: json where
  "skeleton =
     JObj [(''openapi'', JStr ''3.1.0''),
           (''info'', JObj [(''title'', JStr ''Not specified''),
                            (''license'', JObj [(''name'', JStr ''Not specified'')]),
                            (''version'', JStr ''Not specified'')]),
           (''servers'', JArr [JObj [(''url'', JStr ''/'')]]),
           (''paths'', JObj [])]"

definition initialState :: "heap \<Rightarrow> state" where
  "initialState h =
     \<lparr>heap = h, error = None, operationDef = VUndef, currentSelection = [], fragments = []\<rparr>"

text \<open>The variables \<open>toOpenAPI\<close> sets up before the walk: the skeleton of the OpenAPI
  document and the empty stack and fragment table.\<close>

definition startWalk :: "converter \<Rightarrow> schema \<Rightarrow> document \<Rightarrow> heap \<Rightarrow> env \<times> state" where
  "startWalk this sch parsedQuery h =
     (let (doc, h1) = alloc_json skeleton h
      in (\<lparr>graphqlSchema = sch, onUnknownScalar = unknownScalar this,
           scalarConfig = scalarCache this, openApiSchema = doc,
           sourceLine = locationOffset_line parsedQuery\<rparr>,
          initialState h1))"

text \<open>Method \<open>toOpenAPI\<close>.  The result is an exception thrown out of the call, or the
  returned result variant together with the store the call leaves behind.\<close>

definition toOpenAPI ::
  "('q \<Rightarrow> gerror + document) \<Rightarrow> (schema \<Rightarrow> document \<Rightarrow> gerror list) \<Rightarrow>
   converter \<Rightarrow> 'q \<Rightarrow> heap \<Rightarrow> exn + (result \<times> heap)" where
  "toOpenAPI parse validate this query h =
     (case schemaError this of
        Some err \<Rightarrow> Inr (RSchemaError err, h)
      | None \<Rightarrow>
          (case parse query of
             Inl err \<Rightarrow> Inr (RQueryErrors [err], h)
           | Inr parsedQuery \<Rightarrow>
               (case builtSchema this of
                  None \<Rightarrow> Inl (Error ''Expected undefined to be a GraphQL schema.'')
                | Some sch \<Rightarrow>
                    (let queryErrors = validate sch parsedQuery
                     in if length queryErrors > 0 then Inr (RQueryErrors queryErrors, h)
                        else
                          (let (en, st0) = startWalk this sch parsedQuery h
                           in thenE (visitDefinitions en (definitions parsedQuery) st0)
                                (\<lambda>(brk, st).
                                   case error st of
                                     Some message \<Rightarrow> Inr (RError message, heap st)
                                   | None \<Rightarrow> Inr (ROpenApiSchema (openApiSchema en), heap st)))))))"

section \<open>Reading the output\<close>

text \<open>\<open>v.k1.k2...\<close> read in a store, and the last entry of \<open>operationDef.get.parameters\<close>.\<close>

fun getPath :: "heap \<Rightarrow> val \<Rightarrow> string list \<Rightarrow> val" where
  "getPath h v [] = v"
| "getPath h v (k # ks) = getPath h (getPropOpt h v k) ks"

definition lastElement :: "heap \<Rightarrow> val \<Rightarrow> val" where
  "lastElement h v =
     (case v of
        VRef a \<Rightarrow> (case deref h a of HArr xs \<Rightarrow> (if xs = [] then VUndef else last xs)
                   | HObj ps \<Rightarrow> VUndef)
      | _ \<Rightarrow> VUndef)"

definition lastParameter :: "heap \<Rightarrow> val \<Rightarrow> val" where
  "lastParameter h opDef = lastElement h (getPath h opDef [''get'', ''parameters''])"

text \<open>The response schema of an operation in a returned document.\<close>

definition responseSchema :: "heap \<Rightarrow> val \<Rightarrow> string \<Rightarrow> val" where
  "responseSchema h doc opName =
     getPath h doc [''paths'', ''/'' @ opName, ''get'', ''responses'', ''200'', ''content'',
                    ''application/json'', ''schema'']"

section \<open>Scenarios\<close>

text \<open>A converter constructed from a schema text that \<open>buildSchema\<close> turns into \<open>sch\<close>,
  with the given callback and no cache, in an empty store; and the translation by such a
  converter of a query text that the library parses to \<open>doc\<close> and finds valid.\<close>

definition converterFor :: "schema \<Rightarrow> callback option \<Rightarrow> exn + (converter \<times> heap)" where
  "converterFor sch cb =
     newConverter (\<lambda>text. Inr sch) (\<lambda>i :: unit. Inl []) (Some ''(schema text)'') None cb None []"

definition translate :: "schema \<Rightarrow> callback option \<Rightarrow> document \<Rightarrow> exn + (result \<times> heap)" where
  "translate sch cb doc =
     thenE (converterFor sch cb) (\<lambda>(this, h0).
       toOpenAPI (\<lambda>q :: unit. Inr doc) (\<lambda>sch d. []) this () h0)"

definition document_of :: "definitionNode list \<Rightarrow> document" where
  "document_of ds = \<lparr>locationOffset_line = 1, definitions = ds\<rparr>"

text \<open>Schema \<open>type Query { hero: String }\<close> with the queries \<open>query GetHero { hero }\<close>
  and \<open>{ hero }\<close>, and schema \<open>type Query { hero(id: ID!): String }\<close> with the query
  \<open>query GetHero($id: ID!) { hero(id: $id) }\<close>.  No handler reads the arguments of a
  field, so they are not part of the model and the two schemas are the same here.\<close>

definition heroSchema :: schema where
  "heroSchema =
     \<lparr>types = [(''Query'', ObjectType [(''hero'', (Named ''String'', VUndef))])],
      queryType = Some ''Query'', mutationType = None, subscriptionType = None\<rparr>"

definition getHeroQuery :: document where
  "getHeroQuery =
     document_of [OperationDefinition 0 Query (Some ''GetHero'') [] [Field 1 None ''hero'' []]]"

definition anonymousQuery :: document where
  "anonymousQuery = document_of [OperationDefinition 0 Query None [] [Field 1 None ''hero'' []]]"


text \<open>Schema
  \<^verbatim>\<open>scalar DateTime
  input Filter { name: String }
  type Hero { id: ID!  name: String }
  type Query { hero: Hero  when: DateTime  times: [DateTime]  stamps: [DateTime!]
               heroes(filter: Filter!, other: Filter): String }\<close>
  and a callback that knows \<open>DateTime\<close>.\<close>

definition starSchema :: schema where
  "starSchema =
     \<lparr>types =
        [(''Query'', ObjectType [(''hero'', (Named ''Hero'', VUndef)),
                                 (''when'', (Named ''DateTime'', VUndef)),
                                 (''times'', (ListT (Named ''DateTime''), VUndef)),
                                 (''stamps'', (ListT (NonNullT (Named ''DateTime'')), VUndef)),
                                 (''heroes'', (Named ''String'', VUndef))]),
         (''Hero'', ObjectType [(''id'', (NonNullT (Named ''ID''), VUndef)),
                                (''name'', (Named ''String'', VUndef))]),
         (''Filter'', InputObjectType VUndef [(''name'', (Named ''String'', VUndef))]),
         (''DateTime'', ScalarType)],
      queryType = Some ''Query'', mutationType = None, subscriptionType = None\<rparr>"

definition dateTimeCallback :: callback where
  "dateTimeCallback s = (if s = ''DateTime'' then Some [(''type'', JStr ''string'')] else None)"


text \<open>\<open>fragment F on Query { when }  { ...F }\<close>\<close>

definition fragmentThenAnonymousQuery :: document where
  "fragmentThenAnonymousQuery =
     document_of [FragmentDefinition 0 ''F'' ''Query'' [Field 1 None ''when'' []],
                  OperationDefinition 2 Query None [] [FragmentSpread 3 ''F'']]"

text \<open>\<open>query Q($filter: Filter!, $other: Filter) { heroes(filter: $filter, other: $other) }\<close>\<close>

definition filterQuery :: document where
  "filterQuery =
     document_of [OperationDefinition 0 Query (Some ''Q'')
                    [(''filter'', NonNullT (Named ''Filter'')), (''other'', Named ''Filter'')]
                    [Field 1 None ''heroes'' []]]"

text \<open>The environment of a walk by a converter with an empty cache, and the state of that
  walk right after it has entered a named operation that is the first definition.\<close>

definition walkEnv :: "schema \<Rightarrow> callback \<Rightarrow> document \<Rightarrow> env" where
  "walkEnv sch cb doc =
     fst (startWalk \<lparr>schemaError = None, builtSchema = Some sch, unknownScalar = cb,
                      scalarCache = VRef 0\<rparr> sch doc [HObj []])"

definition stateInOperation :: "schema \<Rightarrow> callback \<Rightarrow> document \<Rightarrow> string \<Rightarrow> state" where
  "stateInOperation sch cb doc name =
     (case operationEnter (walkEnv sch cb doc) 0 (Some name)
             (snd (startWalk \<lparr>schemaError = None, builtSchema = Some sch, unknownScalar = cb,
                               scalarCache = VRef 0\<rparr> sch doc [HObj []])) of
        Inr (brk, st) \<Rightarrow> st
      | Inl e \<Rightarrow> initialState [])"


definition stampsQuery :: document where
  "stampsQuery =
     document_of [OperationDefinition 0 Query (Some ''Q'') [] [Field 1 None ''stamps'' []]]"

definition whenTimesQuery :: document where
  "whenTimesQuery =
     document_of [OperationDefinition 0 Query (Some ''Q'') []
                    [Field 1 None ''when'' [], Field 2 None ''times'' []]]"







section \<open>Properties of documents\<close>






section \<open>Basic facts about the store\<close>

lemma thenE_Inl [simp]: "thenE (Inl e) f = Inl e"
  by (simp add: thenE_def)

lemma thenE_Inr [simp]: "thenE (Inr x) f = f x"
  by (simp add: thenE_def)

lemma thenE_eq_Inr: "thenE r f = Inr y \<longleftrightarrow> (\<exists>x. r = Inr x \<and> f x = Inr y)"
  by (cases r) simp_all

lemma deref_Nil [simp]: "deref [] a = HObj []"
  by (simp add: deref_def)

lemma deref_Cons_0 [simp]: "deref (x # xs) 0 = x"
  by (simp add: deref_def)

lemma deref_Cons_Suc [simp]: "deref (x # xs) (Suc n) = deref xs n"
  by (simp add: deref_def)

lemma deref_append [simp]:
  "deref (h @ xs) a = (if a < length h then deref h a else deref xs (a - length h))"
  by (auto simp: deref_def nth_append)

lemma deref_update_same [simp]: "a < length h \<Longrightarrow> deref (h[a := x]) a = x"
  by (simp add: deref_def)

lemma deref_update_other [simp]: "a \<noteq> b \<Longrightarrow> deref (h[a := x]) b = deref h b"
  by (simp add: deref_def)

lemma map_of_upd_prop [simp]:
  "map_of (upd_prop k v ps) k' = (if k' = k then Some v else map_of ps k')"
  by (induction ps) auto

section \<open>Scenario A\<close>

text \<open>
  Claim C1.  For the schema \<open>type Query { hero: String }\<close> and the query
  \<open>query GetHero { hero }\<close>, \<open>toOpenAPI\<close> returns a success result, and the response
  schema of path \<open>/GetHero\<close> in its document serialises to
  \<open>{type: "object", properties: {hero: {type: ["string", "null"]}}}\<close>.
\<close>

theorem scenario_A_response_schema:
  "(case translate heroSchema None getHeroQuery of
      Inr (ROpenApiSchema doc, h) \<Rightarrow>
        reify 7 h (responseSchema h doc ''GetHero'') =
          Some (JObj [(''type'', JStr ''object''),
                      (''properties'',
                       JObj [(''hero'',
                              JObj [(''type'', JArr [JStr ''string'', JStr ''null''])])])])
    | _ \<Rightarrow> False)"
  by code_simp

section \<open>Nullability of output fields\<close>









section \<open>Operations without a name\<close>

lemma visitDefinitions_append:
  "visitDefinitions en (pre @ ds) st =
     thenE (visitDefinitions en pre st)
       (\<lambda>(brk, st1). if brk then Inr (True, st1) else visitDefinitions en ds st1)"
proof (induction pre arbitrary: st)
  case Nil
  show ?case by simp
next
  case (Cons d pre)
  show ?case
  proof (cases "visitDefinition en d st")
    case (Inl e)
    then show ?thesis by simp
  next
    case (Inr r)
    then show ?thesis using Cons by (cases r) simp
  qed
qed

lemma operationEnter_anonymous:
  "operationEnter en l None st =
     Inr (True, st\<lparr>heap := heap st @ [HObj [], HObj [(''type'', VStr ''object''),
                                                     (''properties'', VRef (length (heap st)))]],
                    error := Some (noOperationNameMessage (sourceLine en))\<rparr>)"
  by (simp add: operationEnter_def alloc_def)

text \<open>
  Claim C3, as stated, fails: a document that holds an operation with no name does not
  always yield the \<open>{ error }\<close> variant.  In \<open>fragment F on Query { when }  { ...F }\<close>
  the fragment definition is walked first; \<open>when\<close> is a \<open>DateTime\<close>, no callback is
  configured, and the call throws before the operation is reached.
\<close>

theorem fragment_before_anonymous_operation_counterexample:
  "translate starSchema None fragmentThenAnonymousQuery =
     Inl (UnknownScalarError ''Unknown scalar: DateTime'')"
  by code_simp

text \<open>
  Claim C3, amended.  When the schema was built, the query parses and validates, and the
  walk reaches an operation with no name (the definitions before it are walked without a
  throw and without a stop), \<open>toOpenAPI\<close> returns the \<open>{ error }\<close> variant holding a
  \<open>NoOperationNameError\<close> and no \<open>openApiSchema\<close>.  The walk stops at that operation: the
  store the call leaves is the store at that point plus the two objects the handler
  makes before it tests the name, whatever the operation's variables and selections and
  the definitions after it are.
\<close>

theorem anonymous_operation_stops_walk:
  assumes "schemaError conv = None" and "builtSchema conv = Some sch"
    and "parse q = Inr doc" and "validate sch doc = []"
    and "definitions doc = pre @ OperationDefinition l k None vars sels # post"
    and "startWalk conv sch doc h = (en, st0)"
    and "visitDefinitions en pre st0 = Inr (False, st1)"
  shows "\<exists>message.
           toOpenAPI parse validate conv q h =
             Inr (RError message,
                  heap st1 @ [HObj [], HObj [(''type'', VStr ''object''),
                                             (''properties'', VRef (length (heap st1)))]])"
  using assms
  by (simp add: toOpenAPI_def visitDefinitions_append operationEnter_anonymous)

theorem anonymous_operation_stops_walk_witness:
  "\<exists>message h'.
     toOpenAPI (\<lambda>q :: unit. Inr anonymousQuery) (\<lambda>sch d. [])
       \<lparr>schemaError = None, builtSchema = Some heroSchema, unknownScalar = (\<lambda>s. None),
        scalarCache = VRef 0\<rparr> () [HObj []] = Inr (RError message, h')"
proof -
  let ?conv = "\<lparr>schemaError = None, builtSchema = Some heroSchema,
                 unknownScalar = (\<lambda>s. None), scalarCache = VRef 0\<rparr>"
  obtain en st0 where s: "startWalk ?conv heroSchema anonymousQuery [HObj []] = (en, st0)"
    by (cases "startWalk ?conv heroSchema anonymousQuery [HObj []]")
  have d: "definitions anonymousQuery =
             [] @ OperationDefinition 0 Query None [] [Field 1 None ''hero'' []] # []"
    by (simp add: anonymousQuery_def document_of_def)
  have v: "visitDefinitions en [] st0 = Inr (False, st0)" by simp
  from anonymous_operation_stops_walk [of ?conv heroSchema "\<lambda>q :: unit. Inr anonymousQuery" "()"
      anonymousQuery "\<lambda>sch d. []", OF _ _ _ _ d s v]
  show ?thesis by auto
qed

section \<open>Variables\<close>

lemma deref_Cons: "deref (x # xs) n = (if n = 0 then x else deref xs (n - 1))"
  by (cases n) simp_all

lemma list_update_Cons_if: "(x # xs)[n := y] = (if n = 0 then y # xs else x # xs[n - 1 := y])"
  by (cases n) simp_all

lemma arrPush_Inr:
  "arrPush h v x = Inr h' \<Longrightarrow>
     \<exists>a xs. v = VRef a \<and> deref h a = HArr xs \<and> h' = h[a := HArr (xs @ [x])]"
  by (cases v) (auto split: obj.splits)

lemma getProp_Inr_not_undef:
  "getProp h v k = Inr x \<Longrightarrow> x \<noteq> VUndef \<Longrightarrow>
     \<exists>a ps. v = VRef a \<and> a < length h \<and> deref h a = HObj ps \<and> map_of ps k = Some x"
  by (cases v) (auto simp: deref_def split: obj.splits option.splits if_splits)

lemma recurseInputType_NonNull:
  "recurseInputType sch (NonNullT ofType) depth sc cb h =
     (if depth > 50 then Inl (Error (''depth limit exceeded: '' @ show_nat depth))
      else thenE (recurseInputType sch ofType (depth + 1) sc cb h)
            (\<lambda>(r, h1).
               let (retVal, h2) = alloc (HObj (spread h1 r)) h1
               in thenE (getProp h2 retVal ''type'') (\<lambda>t.
                    case t of
                      VRef a \<Rightarrow>
                        (case deref h2 a of
                           HArr xs \<Rightarrow>
                             (let ys = filter (\<lambda>entry. entry \<noteq> VStr ''null'') xs;
                                  (arr, h3) = alloc (HArr ys) h2
                              in thenE (setProp h3 retVal ''type'' arr) (\<lambda>h4.
                                   if length ys = 1
                                   then thenE (setProp h4 retVal ''type'' (ys ! 0)) (\<lambda>h5.
                                          Inr (retVal, h5))
                                   else Inr (retVal, h4)))
                         | HObj ps \<Rightarrow> Inr (retVal, h2))
                    | _ \<Rightarrow> Inr (retVal, h2))))"
  by (subst recurseInputType.simps) simp

lemma recurseInputType_InputObject:
  assumes "typeKind sch n = Some (InputObjectType d fs)"
  shows "recurseInputType sch (Named n) depth sc cb h =
     (if depth > 50 then Inl (Error (''depth limit exceeded: '' @ show_nat depth))
      else (let (properties, h1) = alloc (HObj []) h
            in thenE (recurseFields sch fs (depth + 1) properties sc cb h1)
                 (\<lambda>h2.
                    let (ty, h3) = alloc (HArr [VStr ''object'', VStr ''null'']) h2
                    in Inr (alloc (HObj [(''type'', ty), (''description'', orUndefined d),
                                         (''properties'', properties)]) h3))))"
  by (subst recurseInputType.simps) (simp add: assms)

lemma input_object_nullable:
  assumes "typeKind sch n = Some (InputObjectType d fs)"
    and "recurseInputType sch (Named n) depth sc cb h = Inr (v, h')"
  shows "\<exists>h2 ps. h' = h2 @ [HArr [VStr ''object'', VStr ''null''],
                            HObj ((''type'', VRef (length h2)) # ps)] \<and>
                 v = VRef (Suc (length h2))"
  using assms(2)
  by (auto simp: recurseInputType_InputObject [OF assms(1)] alloc_def thenE_eq_Inr Let_def
        split: if_splits prod.splits)

lemma input_object_non_null:
  assumes "typeKind sch n = Some (InputObjectType d fs)"
    and "recurseInputType sch (NonNullT (Named n)) depth sc cb h = Inr (v, h')"
  shows "getProp h' v ''type'' = Inr (VStr ''object'')"
proof -
  from assms(2) obtain r h1 where
    r: "recurseInputType sch (Named n) (depth + 1) sc cb h = Inr (r, h1)"
    by (auto simp: recurseInputType_NonNull thenE_eq_Inr split: if_splits)
  from input_object_nullable [OF assms(1) r] obtain h2 ps where
    h1: "h1 = h2 @ [HArr [VStr ''object'', VStr ''null''], HObj ((''type'', VRef (length h2)) # ps)]"
    and rv: "r = VRef (Suc (length h2))" by blast
  from assms(2) r show ?thesis
    by (auto simp: recurseInputType_NonNull h1 rv alloc_def Let_def list_update_append
          deref_Cons list_update_Cons_if split: if_splits)
qed

text \<open>The entry a successful \<open>push\<close> leaves at the end of \<open>operationDef.get.parameters\<close>.\<close>

lemma push_param:
  assumes g: "getProp h1 od ''get'' = Inr get"
    and p: "getProp h1 get ''parameters'' = Inr parameters"
    and push: "arrPush (h1 @ [sch, param]) parameters (VRef (Suc (length h1))) = Inr h'"
    and sch: "sch = HObj sps" and param: "param = HObj pps"
  shows "lastParameter h' od = VRef (Suc (length h1)) \<and>
         deref h' (Suc (length h1)) = param \<and> deref h' (length h1) = sch"
proof -
  from push obtain pa xs where
    par: "parameters = VRef pa"
    and pa: "deref (h1 @ [sch, param]) pa = HArr xs"
    and h': "h' = (h1 @ [sch, param])[pa := HArr (xs @ [VRef (Suc (length h1))])]"
    using arrPush_Inr by blast
  from pa sch param have pa_lt: "pa < length h1"
    by (auto simp: deref_Cons split: if_splits)
  with pa have pa1: "deref h1 pa = HArr xs" by simp
  from p par obtain gA gps where
    gA: "get = VRef gA" "gA < length h1" "deref h1 gA = HObj gps"
        "map_of gps ''parameters'' = Some (VRef pa)"
    using getProp_Inr_not_undef [of h1 get "''parameters''" "VRef pa"] by auto
  from g gA obtain oA ops where
    oA: "od = VRef oA" "oA < length h1" "deref h1 oA = HObj ops"
        "map_of ops ''get'' = Some (VRef gA)"
    using getProp_Inr_not_undef [of h1 od "''get''" "VRef gA"] by auto
  from gA pa1 have ne1: "pa \<noteq> gA" by auto
  from oA pa1 have ne2: "pa \<noteq> oA" by auto
  show ?thesis
    using oA gA ne1 ne2 pa_lt
    by (simp add: lastParameter_def lastElement_def h' deref_Cons)
qed

lemma variableDefinition_parameter:
  assumes ok: "variableDefinition en name ty st = Inr st'"
  shows "\<exists>t h1 tType.
           recurseInputType (graphqlSchema en) ty 0 (scalarConfig en) (onUnknownScalar en)
             (heap st) = Inr (t, h1) \<and>
           getProp h1 t ''type'' = Inr tType \<and>
           operationDef st' = operationDef st \<and>
           getPropOpt (heap st') (lastParameter (heap st') (operationDef st')) ''name'' = VStr name \<and>
           getPropOpt (heap st') (lastParameter (heap st') (operationDef st')) ''required'' =
             VBool (\<not> isOfTypeOrContains h1 tType ''null'') \<and>
           getPath (heap st') (lastParameter (heap st') (operationDef st')) [''schema'', ''type''] =
             tType"
proof -
  from ok obtain t h1 where
    rec: "recurseInputType (graphqlSchema en) ty 0 (scalarConfig en) (onUnknownScalar en)
            (heap st) = Inr (t, h1)"
    by (auto simp: variableDefinition_def thenE_eq_Inr split: if_splits)
  from ok rec obtain tType get parameters sps dd where
    ty: "getProp h1 t ''type'' = Inr tType"
    and g: "getProp h1 (operationDef st) ''get'' = Inr get"
    and p: "getProp h1 get ''parameters'' = Inr parameters"
    and push: "arrPush (h1 @ [HObj ((''type'', tType) # sps),
                 HObj [(''name'', VStr name), (''in'', VStr ''query''),
                       (''required'', VBool (\<not> isOfTypeOrContains h1 tType ''null'')),
                       (''schema'', VRef (length h1)),
                       (''description'', dd)]]) parameters
                 (VRef (Suc (length h1))) = Inr (heap st')"
    and od: "operationDef st' = operationDef st"
    by (auto simp: variableDefinition_def thenE_eq_Inr alloc_def Let_def split: if_splits)
  from push_param [OF g p push refl refl] show ?thesis
    using rec ty od by simp
qed

text \<open>
  Claim C4.  For a variable whose declared type is a non-null input object, the schema of
  the parameter entry the handler appends has as its top-level type exactly the string
  \<open>"object"\<close>.  For a variable whose declared type is a nullable input object, that type is
  the array the input mapper made, which holds \<open>["object", "null"]\<close>.
\<close>

theorem input_object_variable_type:
  assumes kind: "typeKind (graphqlSchema en) n = Some (InputObjectType d fs)"
  shows "(variableDefinition en name (NonNullT (Named n)) st = Inr st' \<longrightarrow>
            getPath (heap st') (lastParameter (heap st') (operationDef st'))
              [''schema'', ''type''] = VStr ''object'') \<and>
         (variableDefinition en name (Named n) st = Inr st'' \<longrightarrow>
            (\<exists>t h1 a.
               recurseInputType (graphqlSchema en) (Named n) 0 (scalarConfig en)
                 (onUnknownScalar en) (heap st) = Inr (t, h1) \<and>
               getProp h1 t ''type'' = Inr (VRef a) \<and>
               deref h1 a = HArr [VStr ''object'', VStr ''null''] \<and>
               getPath (heap st'') (lastParameter (heap st'') (operationDef st''))
                 [''schema'', ''type''] = VRef a))"
proof (intro conjI impI)
  assume "variableDefinition en name (NonNullT (Named n)) st = Inr st'"
  from variableDefinition_parameter [OF this] input_object_non_null [OF kind]
  show "getPath (heap st') (lastParameter (heap st') (operationDef st'))
          [''schema'', ''type''] = VStr ''object''"
    by fastforce
next
  assume "variableDefinition en name (Named n) st = Inr st''"
  from variableDefinition_parameter [OF this] obtain t h1 tType where
    rec: "recurseInputType (graphqlSchema en) (Named n) 0 (scalarConfig en)
            (onUnknownScalar en) (heap st) = Inr (t, h1)"
    and ty: "getProp h1 t ''type'' = Inr tType"
    and p: "getPath (heap st'') (lastParameter (heap st'') (operationDef st''))
              [''schema'', ''type''] = tType"
    by blast
  from input_object_nullable [OF kind rec] obtain h2 ps where
    "h1 = h2 @ [HArr [VStr ''object'', VStr ''null''], HObj ((''type'', VRef (length h2)) # ps)]"
    "t = VRef (Suc (length h2))" by blast
  with ty have "tType = VRef (length h2)"
    and "deref h1 (length h2) = HArr [VStr ''object'', VStr ''null'']"
    by (auto simp: deref_Cons)
  with rec ty p show "\<exists>t h1 a.
               recurseInputType (graphqlSchema en) (Named n) 0 (scalarConfig en)
                 (onUnknownScalar en) (heap st) = Inr (t, h1) \<and>
               getProp h1 t ''type'' = Inr (VRef a) \<and>
               deref h1 a = HArr [VStr ''object'', VStr ''null''] \<and>
               getPath (heap st'') (lastParameter (heap st'') (operationDef st''))
                 [''schema'', ''type''] = VRef a"
    by (intro exI [of _ t] exI [of _ h1] exI [of _ "length h2"]) simp
qed

theorem input_object_variable_type_witness:
  "\<exists>st' st''.
     typeKind (graphqlSchema (walkEnv starSchema (\<lambda>s. None) filterQuery)) ''Filter'' =
       Some (InputObjectType VUndef [(''name'', (Named ''String'', VUndef))]) \<and>
     variableDefinition (walkEnv starSchema (\<lambda>s. None) filterQuery) ''filter''
       (NonNullT (Named ''Filter'')) (stateInOperation starSchema (\<lambda>s. None) filterQuery ''Q'')
       = Inr st' \<and>
     getPath (heap st') (lastParameter (heap st') (operationDef st')) [''schema'', ''type'']
       = VStr ''object'' \<and>
     variableDefinition (walkEnv starSchema (\<lambda>s. None) filterQuery) ''filter''
       (Named ''Filter'') (stateInOperation starSchema (\<lambda>s. None) filterQuery ''Q'')
       = Inr st'' \<and>
     (\<exists>a. getPath (heap st'') (lastParameter (heap st'') (operationDef st''))
             [''schema'', ''type''] = VRef a)"
proof -
  let ?en = "walkEnv starSchema (\<lambda>s. None) filterQuery"
  let ?st = "stateInOperation starSchema (\<lambda>s. None) filterQuery ''Q''"
  have k: "typeKind (graphqlSchema ?en) ''Filter'' =
             Some (InputObjectType VUndef [(''name'', (Named ''String'', VUndef))])"
    by code_simp
  have "(case variableDefinition ?en ''filter'' (NonNullT (Named ''Filter'')) ?st of
           Inr s \<Rightarrow> True | Inl e \<Rightarrow> False)"
    by code_simp
  then obtain st' where
    a: "variableDefinition ?en ''filter'' (NonNullT (Named ''Filter'')) ?st = Inr st'"
    by (auto split: sum.splits)
  have "(case variableDefinition ?en ''filter'' (Named ''Filter'') ?st of
           Inr s \<Rightarrow> True | Inl e \<Rightarrow> False)"
    by code_simp
  then obtain st'' where
    b: "variableDefinition ?en ''filter'' (Named ''Filter'') ?st = Inr st''"
    by (auto split: sum.splits)
  from input_object_variable_type [OF k, where name = "''filter''" and st = ?st
      and st' = st' and st'' = st''] a b k
  show ?thesis by blast
qed



section \<open>Unknown scalars\<close>







section \<open>Lists of custom scalars and the scalar cache\<close>

text \<open>
  Claim C7 does not hold of the code.  For \<open>stamps: [DateTime!]\<close>, whose item type is
  wrapped in non-null, and a callback that maps \<open>DateTime\<close> to \<open>{type: "string"}\<close>, the
  items of the node for \<open>query Q { stamps }\<close> are resolved by the scalar resolver but
  still gain \<open>"null"\<close>: the handler adds it whatever the wrapping of the item type.
\<close>

theorem non_null_scalar_items_marked_nullable:
  "(case translate starSchema (Some dateTimeCallback) stampsQuery of
      Inr (ROpenApiSchema doc, h) \<Rightarrow>
        getFieldDef starSchema (Some ''Query'') ''stamps'' =
          Some (ListT (NonNullT (Named ''DateTime'')), VUndef) \<and>
        reify 6 h (getPath h (responseSchema h doc ''Q'') [''properties'', ''stamps'']) =
          Some (JObj [(''items'', JObj [(''type'', JArr [JStr ''string'', JStr ''null''])]),
                      (''type'', JStr ''array'')])
    | _ \<Rightarrow> False)"
  by code_simp

text \<open>
  Claim C9 does not hold of the code.  With \<open>when: DateTime\<close> and \<open>times: [DateTime]\<close>, one
  converter, one cache and one callback, \<open>query Q { when times }\<close> is translated twice.
  The list branch writes \<open>[type, "null"]\<close> into the cached node itself, so the second
  call finds the node changed: its document differs from the first call's document, both
  as the first call returned it and as it reads after the second call.
\<close>

theorem same_query_twice_differs:
  "(case converterFor starSchema (Some dateTimeCallback) of
      Inr (conv, h0) \<Rightarrow>
        (case toOpenAPI (\<lambda>q :: unit. Inr whenTimesQuery) (\<lambda>sch d. []) conv () h0 of
           Inr (ROpenApiSchema doc1, h1) \<Rightarrow>
             (case toOpenAPI (\<lambda>q :: unit. Inr whenTimesQuery) (\<lambda>sch d. []) conv () h1 of
                Inr (ROpenApiSchema doc2, h2) \<Rightarrow>
                  reify 6 h1 (getPath h1 (responseSchema h1 doc1 ''Q'') [''properties'']) =
                    Some (JObj
                      [(''when'', JObj [(''type'', JStr ''string'')]),
                       (''times'',
                        JObj [(''items'', JObj [(''type'', JArr [JStr ''string'', JStr ''null''])]),
                              (''type'', JStr ''array'')])]) \<and>
                  reify 6 h2 (getPath h2 (responseSchema h2 doc1 ''Q'') [''properties'']) =
                    Some (JObj
                      [(''when'', JObj [(''type'', JStr ''string'')]),
                       (''times'',
                        JObj [(''items'',
                               JObj [(''type'', JArr [JArr [JStr ''string'', JStr ''null''],
                                                      JStr ''null''])]),
                              (''type'', JStr ''array'')])]) \<and>
                  reify 6 h2 (getPath h2 (responseSchema h2 doc2 ''Q'') [''properties'']) =
                    Some (JObj
                      [(''when'', JObj [(''type'', JArr [JStr ''string'', JStr ''null''])]),
                       (''times'',
                        JObj [(''items'',
                               JObj [(''type'', JArr [JArr [JStr ''string'', JStr ''null''],
                                                      JStr ''null''])]),
                              (''type'', JStr ''array'')])])
              | _ \<Rightarrow> False)
         | _ \<Rightarrow> False)
    | _ \<Rightarrow> False)"
  by code_simp

section \<open>Fragments\<close>
































end
